theory Spec2Isabelle
  imports Complex_Main "HOL-Library.Multiset"
begin

section \<open>Data model\<close>

text \<open>
  The bookkeeping core of the repository is \<^verbatim>\<open>lib/accounting.ts\<close> (chart of accounts,
  \<^verbatim>\<open>generateJournal\<close>, \<^verbatim>\<open>generateLedger\<close>) together with the report derivations
  computed in \<^verbatim>\<open>App.tsx\<close> and in the two versions of \<^verbatim>\<open>ReportsPage\<close>.

  Conventions of the embedding:
  \<^item> a TypeScript \<^verbatim>\<open>number\<close> is an exact rational (\<^typ>\<open>rat\<close>); the rounding of
    IEEE doubles is not modelled, and neither is \<^verbatim>\<open>NaN\<close>;
  \<^item> the string-literal unions \<^verbatim>\<open>'income' | 'expense'\<close> and \<^verbatim>\<open>'paid' | 'unpaid'\<close>
    are strings, as they are at run time (rows come from the datastore unchecked), so
    that the branch the source takes for a value outside the union is part of the model;
  \<^item> record fields carry a prefix, since several interfaces of the source share
    field names.
\<close>

datatype AccountType = Asset | Liability | Equity | Revenue | Expense

datatype NormalBalance = Debit | Credit

record Account =
  acc_code :: string
  acc_name :: string
  acc_type :: AccountType
  acc_normalBalance :: NormalBalance

record Transaction =
  t_id :: string
  t_date :: string
  t_description :: string
  t_amount :: rat
  t_type :: string
  t_payment_status :: string
  t_created_at :: string

record JournalEntryLine =
  accountId :: string
  accountName :: string
  debit :: rat
  credit :: rat

record JournalEntry =
  je_id :: string
  je_date :: string
  je_description :: string
  je_lines :: "JournalEntryLine list"

record LedgerEntry =
  le_date :: string
  le_description :: string
  le_debit :: rat
  le_credit :: rat

record LedgerAccount =
  la_code :: string
  la_name :: string
  la_type :: AccountType
  la_balance :: rat
  la_entries :: "LedgerEntry list"

section \<open>Chart of accounts\<close>

definition acc_101 :: Account where
  "acc_101 = \<lparr>acc_code = ''101'', acc_name = ''Kas & Bank'', acc_type = Asset,
              acc_normalBalance = Debit\<rparr>"

definition acc_102 :: Account where
  "acc_102 = \<lparr>acc_code = ''102'', acc_name = ''Piutang Usaha'', acc_type = Asset,
              acc_normalBalance = Debit\<rparr>"

definition acc_201 :: Account where
  "acc_201 = \<lparr>acc_code = ''201'', acc_name = ''Utang Usaha'', acc_type = Liability,
              acc_normalBalance = Credit\<rparr>"

definition acc_301 :: Account where
  "acc_301 = \<lparr>acc_code = ''301'', acc_name = ''Modal Pemilik'', acc_type = Equity,
              acc_normalBalance = Credit\<rparr>"

definition acc_302 :: Account where
  "acc_302 = \<lparr>acc_code = ''302'', acc_name = ''Laba Ditahan'', acc_type = Equity,
              acc_normalBalance = Credit\<rparr>"

definition acc_303 :: Account where
  "acc_303 = \<lparr>acc_code = ''303'', acc_name = ''Prive'', acc_type = Equity,
              acc_normalBalance = Debit\<rparr>"

definition acc_401 :: Account where
  "acc_401 = \<lparr>acc_code = ''401'', acc_name = ''Pendapatan Jasa'', acc_type = Revenue,
              acc_normalBalance = Credit\<rparr>"

definition acc_501 :: Account where
  "acc_501 = \<lparr>acc_code = ''501'', acc_name = ''Beban Operasional'', acc_type = Expense,
              acc_normalBalance = Debit\<rparr>"

text \<open>
  \<^verbatim>\<open>CHART_OF_ACCOUNTS\<close> is an object literal. It is modelled as the list of its own
  properties in the order \<^verbatim>\<open>Object.values\<close> enumerates them. All eight keys are
  canonical array indices, which JavaScript enumerates in ascending numeric order; the
  literal already lists them in that order.
\<close>

definition CHART_OF_ACCOUNTS :: "(string \<times> Account) list" where
  "CHART_OF_ACCOUNTS =
     [(''101'', acc_101), (''102'', acc_102), (''201'', acc_201), (''301'', acc_301),
      (''302'', acc_302), (''303'', acc_303), (''401'', acc_401), (''501'', acc_501)]"

section \<open>JavaScript objects used as dictionaries\<close>

text \<open>
  A property read \<^verbatim>\<open>obj[k]\<close> on an object created by a literal first looks for an
  own property and then walks the prototype chain, which for a literal is
  \<^verbatim>\<open>Object.prototype\<close>. The names below are the properties of
  \<^verbatim>\<open>Object.prototype\<close>; each of them holds a function or an object, hence a truthy
  value that is no record of the dictionary.
\<close>

definition object_prototype_keys :: "string list" where
  "object_prototype_keys =
     [''constructor'', ''hasOwnProperty'', ''isPrototypeOf'', ''propertyIsEnumerable'',
      ''toLocaleString'', ''toString'', ''valueOf'', ''__proto__'',
      ''__defineGetter__'', ''__defineSetter__'', ''__lookupGetter__'', ''__lookupSetter__'']"

datatype 'a property = Undefined | Own 'a | Inherited

definition obj_get :: "(string \<times> 'a) list \<Rightarrow> string \<Rightarrow> 'a property" where
  "obj_get obj k =
     (case map_of obj k of
        Some v \<Rightarrow> Own v
      | None \<Rightarrow> if k \<in> set object_prototype_keys then Inherited else Undefined)"

text \<open>
  An assignment \<^verbatim>\<open>obj[k] = v\<close> overwrites an own property in place and otherwise
  adds one. A new property is put at the end; the keys assigned in this program are
  the chart's codes in ascending order, for which this is the enumeration order.
\<close>

fun obj_set :: "(string \<times> 'a) list \<Rightarrow> string \<Rightarrow> 'a \<Rightarrow> (string \<times> 'a) list" where
  "obj_set [] k v = [(k, v)]"
| "obj_set ((k', v') # obj) k v =
     (if k' = k then (k, v) # obj else (k', v') # obj_set obj k v)"

definition Object_values :: "(string \<times> 'a) list \<Rightarrow> 'a list" where
  "Object_values obj = map snd obj"

datatype error = TypeError

section \<open>Journal generation\<close>

text \<open>\<^verbatim>\<open>Number(x)\<close> applied to a value that is a number returns it unchanged.\<close>

definition Number :: "rat \<Rightarrow> rat" where
  "Number x = x"

text \<open>
  The body of the callback of \<^verbatim>\<open>transactions.map\<close>: the array \<^verbatim>\<open>lines\<close> after the
  pushes. The reads \<^verbatim>\<open>CHART_OF_ACCOUNTS['401'].name\<close> have constant keys that are own
  properties of the chart (lemma \<open>chart_constant_reads\<close>), so they are written as
  the fields of the account constants.
\<close>

definition journal_lines :: "Transaction \<Rightarrow> JournalEntryLine list" where
  "journal_lines t =
     (let amount = Number (t_amount t) in
      if t_type t = ''income'' then
        [\<lparr>accountId = ''401'', accountName = acc_name acc_401, debit = 0, credit = amount\<rparr>] @
        (if t_payment_status t = ''paid'' then
           [\<lparr>accountId = ''101'', accountName = acc_name acc_101, debit = amount, credit = 0\<rparr>]
         else
           [\<lparr>accountId = ''102'', accountName = acc_name acc_102, debit = amount, credit = 0\<rparr>])
      else if t_type t = ''expense'' then
        [\<lparr>accountId = ''501'', accountName = acc_name acc_501, debit = amount, credit = 0\<rparr>] @
        (if t_payment_status t = ''paid'' then
           [\<lparr>accountId = ''101'', accountName = acc_name acc_101, debit = 0, credit = amount\<rparr>]
         else
           [\<lparr>accountId = ''201'', accountName = acc_name acc_201, debit = 0, credit = amount\<rparr>])
      else [])"

definition journal_entry_of :: "Transaction \<Rightarrow> JournalEntry" where
  "journal_entry_of t =
     \<lparr>je_id = t_id t, je_date = t_date t, je_description = t_description t,
      je_lines = journal_lines t\<rparr>"

definition generateJournal :: "Transaction list \<Rightarrow> JournalEntry list" where
  "generateJournal transactions = map journal_entry_of transactions"

section \<open>Ledger aggregation\<close>

text \<open>
  The first loop of \<^verbatim>\<open>generateLedger\<close>: every account of the chart gets a fresh
  view with balance 0 and no entries, stored under its code.
\<close>

definition init_ledger :: "(string \<times> LedgerAccount) list" where
  "init_ledger =
     foldl (\<lambda>ledger acc.
              obj_set ledger (acc_code acc)
                \<lparr>la_code = acc_code acc, la_name = acc_name acc, la_type = acc_type acc,
                 la_balance = 0, la_entries = []\<rparr>)
           [] (Object_values CHART_OF_ACCOUNTS)"

text \<open>
  The body of the inner loop, for one line of one entry. The read
  \<^verbatim>\<open>ledger[line.accountId]\<close> yields \<^verbatim>\<open>undefined\<close> for an unknown key, and the guard
  \<^verbatim>\<open>if (account)\<close> skips the line. For a key inherited from \<^verbatim>\<open>Object.prototype\<close>
  the value read is truthy, the guard passes, and \<^verbatim>\<open>account.entries.push\<close> throws a
  \<^verbatim>\<open>TypeError\<close>, since that value has no array \<^verbatim>\<open>entries\<close>. The view is
  mutated in place; the model stores the updated view under the same key.
  In \<^verbatim>\<open>CHART_OF_ACCOUNTS[account.code].normalBalance\<close> a missing account makes the
  field access throw, and an inherited value has no such field, so the comparison
  with \<^verbatim>\<open>'Debit'\<close> is false there.
\<close>

definition post_line ::
  "JournalEntry \<Rightarrow> (string \<times> LedgerAccount) list \<Rightarrow> JournalEntryLine
     \<Rightarrow> error + (string \<times> LedgerAccount) list" where
  "post_line entry ledger line =
     (case obj_get ledger (accountId line) of
        Undefined \<Rightarrow> Inr ledger
      | Inherited \<Rightarrow> Inl TypeError
      | Own account \<Rightarrow>
          (let pushed = account\<lparr>la_entries := la_entries account @
                 [\<lparr>le_date = je_date entry, le_description = je_description entry,
                   le_debit = debit line, le_credit = credit line\<rparr>]\<rparr>
           in case obj_get CHART_OF_ACCOUNTS (la_code pushed) of
                Undefined \<Rightarrow> Inl TypeError
              | Inherited \<Rightarrow>
                  Inr (obj_set ledger (accountId line)
                        (pushed\<lparr>la_balance := la_balance pushed + (credit line - debit line)\<rparr>))
              | Own acc \<Rightarrow>
                  Inr (obj_set ledger (accountId line)
                        (pushed\<lparr>la_balance := la_balance pushed +
                           (if acc_normalBalance acc = Debit then debit line - credit line
                            else credit line - debit line)\<rparr>))))"

text \<open>\<^verbatim>\<open>entry.lines.forEach\<close>: an exception ends the loop.\<close>

fun post_lines ::
  "JournalEntry \<Rightarrow> (string \<times> LedgerAccount) list \<Rightarrow> JournalEntryLine list
     \<Rightarrow> error + (string \<times> LedgerAccount) list" where
  "post_lines entry ledger [] = Inr ledger"
| "post_lines entry ledger (line # rest) =
     (case post_line entry ledger line of
        Inl e \<Rightarrow> Inl e
      | Inr ledger' \<Rightarrow> post_lines entry ledger' rest)"

text \<open>\<^verbatim>\<open>journal.forEach\<close>.\<close>

fun post_entries ::
  "(string \<times> LedgerAccount) list \<Rightarrow> JournalEntry list
     \<Rightarrow> error + (string \<times> LedgerAccount) list" where
  "post_entries ledger [] = Inr ledger"
| "post_entries ledger (entry # rest) =
     (case post_lines entry ledger (je_lines entry) of
        Inl e \<Rightarrow> Inl e
      | Inr ledger' \<Rightarrow> post_entries ledger' rest)"

definition generateLedger :: "JournalEntry list \<Rightarrow> error + LedgerAccount list" where
  "generateLedger journal =
     (case post_entries init_ledger journal of
        Inl e \<Rightarrow> Inl e
      | Inr ledger \<Rightarrow> Inr (Object_values ledger))"

section \<open>Report derivations\<close>

subsection \<open>Dashboard statistics (\<^verbatim>\<open>stats\<close> in \<^verbatim>\<open>App.tsx\<close>)\<close>

record Stats =
  st_income :: rat
  st_expenses :: rat
  st_profit :: rat
  st_unpaid :: rat

definition stats :: "Transaction list \<Rightarrow> Stats" where
  "stats transactions =
     (let income = foldl (\<lambda>sum t. sum + Number (t_amount t)) 0
            (filter (\<lambda>t. t_type t = ''income'' \<and> t_payment_status t = ''paid'') transactions);
          expenses = foldl (\<lambda>sum t. sum + Number (t_amount t)) 0
            (filter (\<lambda>t. t_type t = ''expense'' \<and> t_payment_status t = ''paid'') transactions);
          unpaid = foldl (\<lambda>sum t. sum + Number (t_amount t)) 0
            (filter (\<lambda>t. t_type t = ''income'' \<and> t_payment_status t = ''unpaid'') transactions);
          profit = income - expenses
      in \<lparr>st_income = income, st_expenses = expenses, st_profit = profit, st_unpaid = unpaid\<rparr>)"

subsection \<open>Reports computed from the ledger (the \<^verbatim>\<open>ReportsPage\<close> that calls \<^verbatim>\<open>generateLedger\<close>)\<close>






record CashFlow =
  cf_cashIn :: rat
  cf_cashOut :: rat
  cf_netCash :: rat

text \<open>
  \<^verbatim>\<open>cashFlowData\<close> is computed in the same memoised block as the ledger, after
  \<^verbatim>\<open>generateLedger\<close> has returned.
\<close>

definition cashFlowData :: "Transaction list \<Rightarrow> error + CashFlow" where
  "cashFlowData transactions =
     (case generateLedger (generateJournal transactions) of
        Inl e \<Rightarrow> Inl e
      | Inr ledgerList \<Rightarrow>
          (let cashIn = foldl (\<lambda>sum t. sum + Number (t_amount t)) 0
                 (filter (\<lambda>t. t_type t = ''income'' \<and> t_payment_status t = ''paid'')
                    transactions);
               cashOut = foldl (\<lambda>sum t. sum + Number (t_amount t)) 0
                 (filter (\<lambda>t. t_type t = ''expense'' \<and> t_payment_status t = ''paid'')
                    transactions)
           in Inr \<lparr>cf_cashIn = cashIn, cf_cashOut = cashOut, cf_netCash = cashIn - cashOut\<rparr>))"

subsection \<open>Balance sheet computed from the transactions (\<^verbatim>\<open>pages/ReportsPage.tsx\<close>)\<close>



section \<open>Specification-level notions\<close>

text \<open>
  The rule table of the specification, row by row as the specification words it:
  line 1 and line 2 for each pair of type and payment status; no row for any other
  pair.
\<close>

definition spec_line :: "string \<Rightarrow> rat \<Rightarrow> rat \<Rightarrow> JournalEntryLine" where
  "spec_line c d cr =
     \<lparr>accountId = c,
      accountName = (case map_of CHART_OF_ACCOUNTS c of Some a \<Rightarrow> acc_name a | None \<Rightarrow> []),
      debit = d, credit = cr\<rparr>"

definition spec_rule_table :: "string \<Rightarrow> string \<Rightarrow> rat \<Rightarrow> JournalEntryLine list option" where
  "spec_rule_table ty status amount =
     (if ty = ''income'' \<and> status = ''paid'' then
        Some [spec_line ''401'' 0 amount, spec_line ''101'' amount 0]
      else if ty = ''income'' \<and> status = ''unpaid'' then
        Some [spec_line ''401'' 0 amount, spec_line ''102'' amount 0]
      else if ty = ''expense'' \<and> status = ''paid'' then
        Some [spec_line ''501'' amount 0, spec_line ''101'' 0 amount]
      else if ty = ''expense'' \<and> status = ''unpaid'' then
        Some [spec_line ''501'' amount 0, spec_line ''201'' 0 amount]
      else None)"

text \<open>
  The postings of a journal to the account with code \<open>c\<close>, in journal order, the
  signed amount a posting adds to the balance of an account with a given normal side,
  and the view of an account that has received a given list of postings.
\<close>

definition posting :: "JournalEntry \<Rightarrow> JournalEntryLine \<Rightarrow> LedgerEntry" where
  "posting entry line =
     \<lparr>le_date = je_date entry, le_description = je_description entry,
      le_debit = debit line, le_credit = credit line\<rparr>"

definition line_postings :: "string \<Rightarrow> JournalEntry \<Rightarrow> JournalEntryLine list \<Rightarrow> LedgerEntry list" where
  "line_postings c entry ls = map (posting entry) (filter (\<lambda>line. accountId line = c) ls)"

definition postings :: "string \<Rightarrow> JournalEntry list \<Rightarrow> LedgerEntry list" where
  "postings c journal = concat (map (\<lambda>entry. line_postings c entry (je_lines entry)) journal)"

definition signed_amount :: "NormalBalance \<Rightarrow> LedgerEntry \<Rightarrow> rat" where
  "signed_amount side p =
     (if side = Debit then le_debit p - le_credit p else le_credit p - le_debit p)"

definition view_of :: "Account \<Rightarrow> LedgerEntry list \<Rightarrow> LedgerAccount" where
  "view_of acc ps =
     \<lparr>la_code = acc_code acc, la_name = acc_name acc, la_type = acc_type acc,
      la_balance = sum_list (map (signed_amount (acc_normalBalance acc)) ps),
      la_entries = ps\<rparr>"

definition posted_view :: "JournalEntry list \<Rightarrow> Account \<Rightarrow> LedgerAccount" where
  "posted_view journal acc = view_of acc (postings (acc_code acc) journal)"

definition ledger_of :: "(string \<Rightarrow> LedgerEntry list) \<Rightarrow> (string \<times> LedgerAccount) list" where
  "ledger_of P = map (\<lambda>(k, acc). (k, view_of acc (P k))) CHART_OF_ACCOUNTS"


text \<open>A journal none of whose lines names a property inherited from \<^verbatim>\<open>Object.prototype\<close>.\<close>

definition inherited_line :: "JournalEntryLine \<Rightarrow> bool" where
  "inherited_line line = (accountId line \<in> set object_prototype_keys)"

definition inherited_journal :: "JournalEntry list \<Rightarrow> bool" where
  "inherited_journal journal = list_ex (\<lambda>entry. list_ex inherited_line (je_lines entry)) journal"


section \<open>Properties of the chart and of journal generation\<close>

lemma chart_constant_reads:
  "obj_get CHART_OF_ACCOUNTS ''101'' = Own acc_101"
  "obj_get CHART_OF_ACCOUNTS ''102'' = Own acc_102"
  "obj_get CHART_OF_ACCOUNTS ''201'' = Own acc_201"
  "obj_get CHART_OF_ACCOUNTS ''401'' = Own acc_401"
  "obj_get CHART_OF_ACCOUNTS ''501'' = Own acc_501"
  by (simp_all add: obj_get_def CHART_OF_ACCOUNTS_def)

lemma length_generateJournal: "length (generateJournal ts) = length ts"
  by (simp add: generateJournal_def)

lemma nth_generateJournal:
  "i < length ts \<Longrightarrow> generateJournal ts ! i = journal_entry_of (ts ! i)"
  by (simp add: generateJournal_def)

lemma journal_lines_debit_credit:
  "sum_list (map debit (journal_lines t)) = sum_list (map credit (journal_lines t))"
  by (simp add: journal_lines_def Let_def)

lemma journal_lines_debit_amount:
  "t_type t = ''income'' \<or> t_type t = ''expense'' \<Longrightarrow>
   sum_list (map debit (journal_lines t)) = t_amount t"
  by (auto simp add: journal_lines_def Let_def Number_def)

text \<open>
  Claim C1. For every transaction of the input list (its type being one of the two
  values of the union), the entry generated for it is balanced: the debits of its
  lines and the credits of its lines both add up to the transaction's amount,
  whatever the amount and the payment status are.
\<close>

theorem generateJournal_balanced:
  assumes "i < length ts"
    and "t_type (ts ! i) = ''income'' \<or> t_type (ts ! i) = ''expense''"
  shows "sum_list (map debit (je_lines (generateJournal ts ! i))) = t_amount (ts ! i)
       \<and> sum_list (map credit (je_lines (generateJournal ts ! i))) = t_amount (ts ! i)"
  using assms journal_lines_debit_amount [of "ts ! i"] journal_lines_debit_credit [of "ts ! i"]
  by (simp add: nth_generateJournal journal_entry_of_def)

theorem generateJournal_balanced_witness:
  "sum_list (map debit (je_lines (generateJournal
      [\<lparr>t_id = ''t1'', t_date = ''2025-01-15'', t_description = ''Jasa Service AC'',
        t_amount = 100000, t_type = ''income'', t_payment_status = ''paid'',
        t_created_at = ''2025-01-15T08:00:00Z''\<rparr>,
       \<lparr>t_id = ''t2'', t_date = ''2025-01-16'', t_description = ''Sewa'',
        t_amount = 30000, t_type = ''expense'', t_payment_status = ''unpaid'',
        t_created_at = ''2025-01-16T08:00:00Z''\<rparr>] ! 1))) = 30000
   \<and> sum_list (map credit (je_lines (generateJournal
      [\<lparr>t_id = ''t1'', t_date = ''2025-01-15'', t_description = ''Jasa Service AC'',
        t_amount = 100000, t_type = ''income'', t_payment_status = ''paid'',
        t_created_at = ''2025-01-15T08:00:00Z''\<rparr>,
       \<lparr>t_id = ''t2'', t_date = ''2025-01-16'', t_description = ''Sewa'',
        t_amount = 30000, t_type = ''expense'', t_payment_status = ''unpaid'',
        t_created_at = ''2025-01-16T08:00:00Z''\<rparr>] ! 1))) = 30000"
  using generateJournal_balanced [of 1
      "[\<lparr>t_id = ''t1'', t_date = ''2025-01-15'', t_description = ''Jasa Service AC'',
        t_amount = 100000, t_type = ''income'', t_payment_status = ''paid'',
        t_created_at = ''2025-01-15T08:00:00Z''\<rparr>,
       \<lparr>t_id = ''t2'', t_date = ''2025-01-16'', t_description = ''Sewa'',
        t_amount = 30000, t_type = ''expense'', t_payment_status = ''unpaid'',
        t_created_at = ''2025-01-16T08:00:00Z''\<rparr>]"]
  by simp

section \<open>The ledger in closed form\<close>

lemma chart_distinct: "distinct (map fst CHART_OF_ACCOUNTS)"
  by (simp add: CHART_OF_ACCOUNTS_def)

lemma chart_code_key: "(k, acc) \<in> set CHART_OF_ACCOUNTS \<Longrightarrow> acc_code acc = k"
  by (auto simp add: CHART_OF_ACCOUNTS_def acc_101_def acc_102_def acc_201_def acc_301_def
      acc_302_def acc_303_def acc_401_def acc_501_def)

lemma chart_key_not_inherited:
  "(k, acc) \<in> set CHART_OF_ACCOUNTS \<Longrightarrow> k \<notin> set object_prototype_keys"
  by (auto simp add: CHART_OF_ACCOUNTS_def object_prototype_keys_def)

lemma map_of_mapped:
  "map_of (map (\<lambda>(k, a). (k, f k a)) xs) k = map_option (f k) (map_of xs k)"
  by (induction xs) auto

lemma obj_set_mapped:
  "map_of xs k = Some a \<Longrightarrow> distinct (map fst xs) \<Longrightarrow>
   obj_set (map (\<lambda>(k, a). (k, f k a)) xs) k v =
   map (\<lambda>(k', a). (k', if k' = k then v else f k' a)) xs"
proof (induction xs)
  case Nil then show ?case by simp
next
  case (Cons x xs)
  obtain k' a' where x: "x = (k', a')" by (cases x)
  show ?case
  proof (cases "k' = k")
    case True
    with Cons.prems x have "k \<notin> fst ` set xs" by auto
    then have "map (\<lambda>(k', a). (k', if k' = k then v else f k' a)) xs = map (\<lambda>(k, a). (k, f k a)) xs"
      by (intro map_cong) (auto simp: image_iff)
    with True x show ?thesis by simp
  next
    case False
    with Cons x show ?thesis by simp
  qed
qed

lemma init_ledger_eq: "init_ledger = ledger_of (\<lambda>c. [])"
  by (simp add: init_ledger_def ledger_of_def view_of_def Object_values_def CHART_OF_ACCOUNTS_def
      acc_101_def acc_102_def acc_201_def acc_301_def
      acc_302_def acc_303_def acc_401_def acc_501_def)

lemma post_line_ledger_of:
  assumes "\<not> inherited_line x"
  shows "post_line e (ledger_of P) x =
         Inr (ledger_of (\<lambda>c. P c @ line_postings c e [x]))"
proof (cases "map_of CHART_OF_ACCOUNTS (accountId x)")
  case None
  then have "map_of (ledger_of P) (accountId x) = None"
    by (simp add: ledger_of_def map_of_mapped)
  with assms have "post_line e (ledger_of P) x = Inr (ledger_of P)"
    by (simp add: post_line_def obj_get_def inherited_line_def)
  moreover have "ledger_of (\<lambda>c. P c @ line_postings c e [x]) = ledger_of P"
    unfolding ledger_of_def
  proof (rule map_cong[OF refl])
    fix y assume y: "y \<in> set CHART_OF_ACCOUNTS"
    obtain k acc where kacc: "y = (k, acc)" by (cases y)
    with y None have "k \<noteq> accountId x"
      by (metis map_of_SomeD map_of_eq_None_iff fst_conv image_eqI not_None_eq weak_map_of_SomeI)
    then show "(case y of (k, acc) \<Rightarrow> (k, view_of acc (P k @ line_postings k e [x]))) =
               (case y of (k, acc) \<Rightarrow> (k, view_of acc (P k)))"
      by (auto simp add: kacc line_postings_def)
  qed
  ultimately show ?thesis by simp
next
  case (Some acc)
  then have mem: "(accountId x, acc) \<in> set CHART_OF_ACCOUNTS" by (rule map_of_SomeD)
  then have code: "acc_code acc = accountId x" by (rule chart_code_key)
  have get: "obj_get (ledger_of P) (accountId x) = Own (view_of acc (P (accountId x)))"
    by (simp add: obj_get_def ledger_of_def map_of_mapped Some)
  have getc: "obj_get CHART_OF_ACCOUNTS (accountId x) = Own acc"
    by (simp add: obj_get_def Some)
  have step: "post_line e (ledger_of P) x =
     Inr (obj_set (ledger_of P) (accountId x) (view_of acc (P (accountId x) @ [posting e x])))"
    by (simp add: post_line_def get Let_def view_of_def code getc signed_amount_def posting_def)
  have "obj_set (ledger_of P) (accountId x) (view_of acc (P (accountId x) @ [posting e x])) =
        ledger_of (\<lambda>c. P c @ line_postings c e [x])"
    unfolding ledger_of_def
    apply (subst obj_set_mapped[OF Some chart_distinct])
    apply (rule map_cong[OF refl])
    using Some map_of_is_SomeI[OF chart_distinct]
    apply (auto simp add: line_postings_def)
    done
  with step show ?thesis by simp
qed


lemma post_lines_ledger_of:
  "post_lines e (ledger_of P) xs =
     (if list_ex inherited_line xs then Inl TypeError
      else Inr (ledger_of (\<lambda>c. P c @ line_postings c e xs)))"
proof (induction xs arbitrary: P)
  case Nil
  then show ?case by (simp add: line_postings_def)
next
  case (Cons x xs)
  show ?case
  proof (cases "inherited_line x")
    case True
    then have "map_of CHART_OF_ACCOUNTS (accountId x) = None"
      using chart_key_not_inherited [of "accountId x"] map_of_SomeD [of CHART_OF_ACCOUNTS "accountId x"]
      by (cases "map_of CHART_OF_ACCOUNTS (accountId x)") (auto simp add: inherited_line_def)
    with True have "obj_get (ledger_of P) (accountId x) = Inherited"
      by (simp add: obj_get_def inherited_line_def ledger_of_def map_of_mapped)
    with True show ?thesis by (simp add: post_line_def)
  next
    case False
    have "(\<lambda>c. (P c @ line_postings c e [x]) @ line_postings c e xs) =
          (\<lambda>c. P c @ line_postings c e (x # xs))"
      by (rule ext) (simp add: line_postings_def)
    with False show ?thesis
      by (simp add: post_line_ledger_of Cons.IH)
  qed
qed

lemma post_entries_ledger_of:
  "post_entries (ledger_of P) js =
     (if inherited_journal js then Inl TypeError
      else Inr (ledger_of (\<lambda>c. P c @ postings c js)))"
proof (induction js arbitrary: P)
  case Nil
  then show ?case by (simp add: postings_def inherited_journal_def)
next
  case (Cons e js)
  show ?case
  proof (cases "list_ex inherited_line (je_lines e)")
    case True
    then show ?thesis by (simp add: post_lines_ledger_of inherited_journal_def)
  next
    case False
    have "(\<lambda>c. (P c @ line_postings c e (je_lines e)) @ postings c js) =
          (\<lambda>c. P c @ postings c (e # js))"
      by (rule ext) (simp add: postings_def)
    with False show ?thesis
      using Cons.IH [of "\<lambda>c. P c @ line_postings c e (je_lines e)"]
      by (simp add: post_lines_ledger_of inherited_journal_def)
  qed
qed

lemma chart_values_views:
  "Object_values (ledger_of (\<lambda>c. postings c js)) = map (posted_view js) (Object_values CHART_OF_ACCOUNTS)"
  using chart_code_key
  by (auto simp add: Object_values_def ledger_of_def posted_view_def)

lemma generateLedger_eq:
  "generateLedger js =
     (if inherited_journal js then Inl TypeError
      else Inr (map (posted_view js) (Object_values CHART_OF_ACCOUNTS)))"
  using post_entries_ledger_of [of "\<lambda>c. []" js]
  by (simp add: generateLedger_def init_ledger_eq chart_values_views)

section \<open>The ledger of a generated journal\<close>

lemma journal_lines_not_inherited: "\<not> list_ex inherited_line (journal_lines t)"
  by (simp add: journal_lines_def Let_def inherited_line_def object_prototype_keys_def)

lemma generateJournal_not_inherited: "\<not> inherited_journal (generateJournal ts)"
  by (induction ts)
     (simp_all add: inherited_journal_def generateJournal_def journal_entry_of_def
        journal_lines_not_inherited)

lemma generateLedger_generateJournal:
  "generateLedger (generateJournal ts) =
     Inr (map (posted_view (generateJournal ts)) (Object_values CHART_OF_ACCOUNTS))"
  by (simp add: generateLedger_eq generateJournal_not_inherited)



lemma foldl_plus: "foldl (\<lambda>sum t. sum + f t) a xs = a + sum_list (map f xs)"
  for a :: rat
  by (induction xs arbitrary: a) simp_all




section \<open>Account balances of a generated journal\<close>




















lemma chart_map_of:
  "map_of CHART_OF_ACCOUNTS ''101'' = Some acc_101"
  "map_of CHART_OF_ACCOUNTS ''102'' = Some acc_102"
  "map_of CHART_OF_ACCOUNTS ''201'' = Some acc_201"
  "map_of CHART_OF_ACCOUNTS ''301'' = Some acc_301"
  "map_of CHART_OF_ACCOUNTS ''401'' = Some acc_401"
  "map_of CHART_OF_ACCOUNTS ''501'' = Some acc_501"
  by (simp_all add: CHART_OF_ACCOUNTS_def)



section \<open>Balance sheets\<close>













section \<open>Reordering the transactions\<close>






section \<open>Cash flow\<close>

lemma stats_income:
  "st_income (stats ts) =
     sum_list (map t_amount (filter (\<lambda>t. t_type t = ''income'' \<and> t_payment_status t = ''paid'') ts))"
  unfolding stats_def Number_def by (simp add: Let_def foldl_plus)

lemma stats_expenses:
  "st_expenses (stats ts) =
     sum_list (map t_amount (filter (\<lambda>t. t_type t = ''expense'' \<and> t_payment_status t = ''paid'') ts))"
  unfolding stats_def Number_def by (simp add: Let_def foldl_plus)

lemma stats_profit: "st_profit (stats ts) = st_income (stats ts) - st_expenses (stats ts)"
  by (simp add: stats_def Let_def)

lemma cashFlowData_eq:
  "cashFlowData ts =
     Inr \<lparr>cf_cashIn = st_income (stats ts), cf_cashOut = st_expenses (stats ts),
          cf_netCash = st_income (stats ts) - st_expenses (stats ts)\<rparr>"
  by (simp add: cashFlowData_def generateLedger_generateJournal stats_def Let_def)

text \<open>
  Claim C7. For every transaction list, the cash-flow figures (the dashboard's
  \<^verbatim>\<open>stats\<close> and the report's \<^verbatim>\<open>cashFlowData\<close>) are: cash-in, the sum of the amounts
  of the income transactions with payment status \<^verbatim>\<open>paid\<close>; cash-out, the sum of the
  amounts of the expense transactions with payment status \<^verbatim>\<open>paid\<close>; net, cash-in
  minus cash-out. A transaction with payment status \<^verbatim>\<open>unpaid\<close> contributes to
  neither total: the figures are the same with and without it.
\<close>

theorem cash_flow_paid_only:
  "st_income (stats ts) =
     sum_list (map t_amount
       (filter (\<lambda>t. t_type t = ''income'' \<and> t_payment_status t = ''paid'') ts))
   \<and> st_expenses (stats ts) =
     sum_list (map t_amount
       (filter (\<lambda>t. t_type t = ''expense'' \<and> t_payment_status t = ''paid'') ts))
   \<and> st_profit (stats ts) = st_income (stats ts) - st_expenses (stats ts)
   \<and> cashFlowData ts =
       Inr \<lparr>cf_cashIn = st_income (stats ts), cf_cashOut = st_expenses (stats ts),
            cf_netCash = st_income (stats ts) - st_expenses (stats ts)\<rparr>
   \<and> (t_payment_status t = ''unpaid'' \<longrightarrow>
        st_income (stats (xs @ t # ys)) = st_income (stats (xs @ ys))
      \<and> st_expenses (stats (xs @ t # ys)) = st_expenses (stats (xs @ ys))
      \<and> cashFlowData (xs @ t # ys) = cashFlowData (xs @ ys))"
  by (simp add: stats_income stats_expenses stats_profit cashFlowData_eq)

theorem cash_flow_paid_only_witness:
  "st_income (stats
        [\<lparr>t_id = ''t1'', t_date = ''2025-01-15'', t_description = ''Jasa Service AC'',
          t_amount = 100000, t_type = ''income'', t_payment_status = ''paid'',
          t_created_at = ''2025-01-15T08:00:00Z''\<rparr>,
         \<lparr>t_id = ''t2'', t_date = ''2025-01-16'', t_description = ''Sewa'',
          t_amount = 30000, t_type = ''expense'', t_payment_status = ''unpaid'',
          t_created_at = ''2025-01-16T08:00:00Z''\<rparr>]) = 100000
   \<and> st_expenses (stats
        [\<lparr>t_id = ''t1'', t_date = ''2025-01-15'', t_description = ''Jasa Service AC'',
          t_amount = 100000, t_type = ''income'', t_payment_status = ''paid'',
          t_created_at = ''2025-01-15T08:00:00Z''\<rparr>,
         \<lparr>t_id = ''t2'', t_date = ''2025-01-16'', t_description = ''Sewa'',
          t_amount = 30000, t_type = ''expense'', t_payment_status = ''unpaid'',
          t_created_at = ''2025-01-16T08:00:00Z''\<rparr>]) = 0
   \<and> cashFlowData
        [\<lparr>t_id = ''t1'', t_date = ''2025-01-15'', t_description = ''Jasa Service AC'',
          t_amount = 100000, t_type = ''income'', t_payment_status = ''paid'',
          t_created_at = ''2025-01-15T08:00:00Z''\<rparr>,
         \<lparr>t_id = ''t2'', t_date = ''2025-01-16'', t_description = ''Sewa'',
          t_amount = 30000, t_type = ''expense'', t_payment_status = ''unpaid'',
          t_created_at = ''2025-01-16T08:00:00Z''\<rparr>]
       = Inr \<lparr>cf_cashIn = 100000, cf_cashOut = 0, cf_netCash = 100000\<rparr>
   \<and> cashFlowData
        [\<lparr>t_id = ''t1'', t_date = ''2025-01-15'', t_description = ''Jasa Service AC'',
          t_amount = 100000, t_type = ''income'', t_payment_status = ''paid'',
          t_created_at = ''2025-01-15T08:00:00Z''\<rparr>,
         \<lparr>t_id = ''t2'', t_date = ''2025-01-16'', t_description = ''Sewa'',
          t_amount = 30000, t_type = ''expense'', t_payment_status = ''unpaid'',
          t_created_at = ''2025-01-16T08:00:00Z''\<rparr>]
       = cashFlowData
        [\<lparr>t_id = ''t1'', t_date = ''2025-01-15'', t_description = ''Jasa Service AC'',
          t_amount = 100000, t_type = ''income'', t_payment_status = ''paid'',
          t_created_at = ''2025-01-15T08:00:00Z''\<rparr>]"
  using cash_flow_paid_only [of
        "[\<lparr>t_id = ''t1'', t_date = ''2025-01-15'', t_description = ''Jasa Service AC'',
          t_amount = 100000, t_type = ''income'', t_payment_status = ''paid'',
          t_created_at = ''2025-01-15T08:00:00Z''\<rparr>,
         \<lparr>t_id = ''t2'', t_date = ''2025-01-16'', t_description = ''Sewa'',
          t_amount = 30000, t_type = ''expense'', t_payment_status = ''unpaid'',
          t_created_at = ''2025-01-16T08:00:00Z''\<rparr>]"
        "\<lparr>t_id = ''t2'', t_date = ''2025-01-16'', t_description = ''Sewa'',
          t_amount = 30000, t_type = ''expense'', t_payment_status = ''unpaid'',
          t_created_at = ''2025-01-16T08:00:00Z''\<rparr>"
        "[\<lparr>t_id = ''t1'', t_date = ''2025-01-15'', t_description = ''Jasa Service AC'',
          t_amount = 100000, t_type = ''income'', t_payment_status = ''paid'',
          t_created_at = ''2025-01-15T08:00:00Z''\<rparr>]"
        "[]"]
  by (simp add: stats_income stats_expenses cashFlowData_eq)

section \<open>The rule table and the shape of an entry\<close>

lemma spec_rule_table_journal_lines:
  assumes "t_type t = ''income'' \<or> t_type t = ''expense''"
    and "t_payment_status t = ''paid'' \<or> t_payment_status t = ''unpaid''"
  shows "spec_rule_table (t_type t) (t_payment_status t) (t_amount t) = Some (journal_lines t)"
  using assms
  by (auto simp add: spec_rule_table_def journal_lines_def spec_line_def Let_def Number_def
      chart_map_of)

text \<open>
  Claim C3. \<^verbatim>\<open>generateJournal\<close> returns one entry per transaction, in input
  order: the output is as long as the input and its \<open>i\<close>-th entry carries the id, date
  and description of the \<open>i\<close>-th transaction. For a transaction whose type and
  payment status lie in their two-value domains, the lines of its entry are the two
  lines of the matching row of the specification's rule table: income/paid credits
  401 and debits 101, income/unpaid credits 401 and debits 102, expense/paid debits
  501 and credits 101, expense/unpaid debits 501 and credits 201, each by the amount.
\<close>

theorem generateJournal_rule_table:
  assumes "i < length ts"
    and "t_type (ts ! i) = ''income'' \<or> t_type (ts ! i) = ''expense''"
    and "t_payment_status (ts ! i) = ''paid'' \<or> t_payment_status (ts ! i) = ''unpaid''"
  shows "length (generateJournal ts) = length ts
       \<and> je_id (generateJournal ts ! i) = t_id (ts ! i)
       \<and> je_date (generateJournal ts ! i) = t_date (ts ! i)
       \<and> je_description (generateJournal ts ! i) = t_description (ts ! i)
       \<and> spec_rule_table (t_type (ts ! i)) (t_payment_status (ts ! i)) (t_amount (ts ! i))
           = Some (je_lines (generateJournal ts ! i))"
  using assms spec_rule_table_journal_lines [of "ts ! i"]
  by (simp add: length_generateJournal nth_generateJournal journal_entry_of_def)

theorem generateJournal_rule_table_witness:
  "(1::nat) < length
        [\<lparr>t_id = ''t1'', t_date = ''2025-01-15'', t_description = ''Jasa Service AC'',
          t_amount = 100000, t_type = ''income'', t_payment_status = ''paid'',
          t_created_at = ''2025-01-15T08:00:00Z''\<rparr>,
         \<lparr>t_id = ''t2'', t_date = ''2025-01-16'', t_description = ''Sewa'',
          t_amount = 30000, t_type = ''expense'', t_payment_status = ''unpaid'',
          t_created_at = ''2025-01-16T08:00:00Z''\<rparr>]
   \<and> length (generateJournal
        [\<lparr>t_id = ''t1'', t_date = ''2025-01-15'', t_description = ''Jasa Service AC'',
          t_amount = 100000, t_type = ''income'', t_payment_status = ''paid'',
          t_created_at = ''2025-01-15T08:00:00Z''\<rparr>,
         \<lparr>t_id = ''t2'', t_date = ''2025-01-16'', t_description = ''Sewa'',
          t_amount = 30000, t_type = ''expense'', t_payment_status = ''unpaid'',
          t_created_at = ''2025-01-16T08:00:00Z''\<rparr>]) = 2
   \<and> je_id (generateJournal
        [\<lparr>t_id = ''t1'', t_date = ''2025-01-15'', t_description = ''Jasa Service AC'',
          t_amount = 100000, t_type = ''income'', t_payment_status = ''paid'',
          t_created_at = ''2025-01-15T08:00:00Z''\<rparr>,
         \<lparr>t_id = ''t2'', t_date = ''2025-01-16'', t_description = ''Sewa'',
          t_amount = 30000, t_type = ''expense'', t_payment_status = ''unpaid'',
          t_created_at = ''2025-01-16T08:00:00Z''\<rparr>] ! 1) = ''t2''
   \<and> je_lines (generateJournal
        [\<lparr>t_id = ''t1'', t_date = ''2025-01-15'', t_description = ''Jasa Service AC'',
          t_amount = 100000, t_type = ''income'', t_payment_status = ''paid'',
          t_created_at = ''2025-01-15T08:00:00Z''\<rparr>,
         \<lparr>t_id = ''t2'', t_date = ''2025-01-16'', t_description = ''Sewa'',
          t_amount = 30000, t_type = ''expense'', t_payment_status = ''unpaid'',
          t_created_at = ''2025-01-16T08:00:00Z''\<rparr>] ! 1)
       = [\<lparr>accountId = ''501'', accountName = ''Beban Operasional'', debit = 30000, credit = 0\<rparr>,
          \<lparr>accountId = ''201'', accountName = ''Utang Usaha'', debit = 0, credit = 30000\<rparr>]"
  using generateJournal_rule_table [of 1
        "[\<lparr>t_id = ''t1'', t_date = ''2025-01-15'', t_description = ''Jasa Service AC'',
          t_amount = 100000, t_type = ''income'', t_payment_status = ''paid'',
          t_created_at = ''2025-01-15T08:00:00Z''\<rparr>,
         \<lparr>t_id = ''t2'', t_date = ''2025-01-16'', t_description = ''Sewa'',
          t_amount = 30000, t_type = ''expense'', t_payment_status = ''unpaid'',
          t_created_at = ''2025-01-16T08:00:00Z''\<rparr>]"]
  by (simp add: spec_rule_table_def spec_line_def chart_map_of acc_501_def acc_201_def)

lemma journal_lines_shape:
  assumes "t_type t = ''income'' \<or> t_type t = ''expense''"
  shows "length (journal_lines t) = 2
       \<and> (\<forall>l \<in> set (journal_lines t).
            accountId l \<in> fst ` set CHART_OF_ACCOUNTS
            \<and> ((debit l = t_amount t \<and> credit l = 0) \<or> (debit l = 0 \<and> credit l = t_amount t))
            \<and> (((debit l \<noteq> 0) \<noteq> (credit l \<noteq> 0)) = (t_amount t \<noteq> 0)))"
  using assms
  by (auto simp add: journal_lines_def Let_def Number_def CHART_OF_ACCOUNTS_def)

text \<open>
  Claim C4, as amended. The entry generated from a transaction of type income or
  expense carries that transaction's id, date and description and has exactly two
  lines. Each line refers to an account of the chart and has one of debit and credit
  equal to the transaction's amount and the other equal to 0; so exactly one of the
  two is nonzero if and only if the amount is nonzero. For amount 0, which the
  data model allows, both are 0.
\<close>

theorem journal_entry_shape:
  assumes "i < length ts"
    and "t_type (ts ! i) = ''income'' \<or> t_type (ts ! i) = ''expense''"
  shows "je_id (generateJournal ts ! i) = t_id (ts ! i)
       \<and> je_date (generateJournal ts ! i) = t_date (ts ! i)
       \<and> je_description (generateJournal ts ! i) = t_description (ts ! i)
       \<and> length (je_lines (generateJournal ts ! i)) = 2
       \<and> (\<forall>l \<in> set (je_lines (generateJournal ts ! i)).
            accountId l \<in> fst ` set CHART_OF_ACCOUNTS
            \<and> ((debit l = t_amount (ts ! i) \<and> credit l = 0)
               \<or> (debit l = 0 \<and> credit l = t_amount (ts ! i)))
            \<and> (((debit l \<noteq> 0) \<noteq> (credit l \<noteq> 0)) = (t_amount (ts ! i) \<noteq> 0)))"
  using assms journal_lines_shape [of "ts ! i"]
  by (simp add: nth_generateJournal journal_entry_of_def)

theorem journal_entry_shape_witness:
  "(0::nat) < length
        [\<lparr>t_id = ''t1'', t_date = ''2025-01-15'', t_description = ''Jasa Service AC'',
          t_amount = 100000, t_type = ''income'', t_payment_status = ''unpaid'',
          t_created_at = ''2025-01-15T08:00:00Z''\<rparr>]
   \<and> je_id (generateJournal
        [\<lparr>t_id = ''t1'', t_date = ''2025-01-15'', t_description = ''Jasa Service AC'',
          t_amount = 100000, t_type = ''income'', t_payment_status = ''unpaid'',
          t_created_at = ''2025-01-15T08:00:00Z''\<rparr>] ! 0) = ''t1''
   \<and> je_date (generateJournal
        [\<lparr>t_id = ''t1'', t_date = ''2025-01-15'', t_description = ''Jasa Service AC'',
          t_amount = 100000, t_type = ''income'', t_payment_status = ''unpaid'',
          t_created_at = ''2025-01-15T08:00:00Z''\<rparr>] ! 0) = ''2025-01-15''
   \<and> je_description (generateJournal
        [\<lparr>t_id = ''t1'', t_date = ''2025-01-15'', t_description = ''Jasa Service AC'',
          t_amount = 100000, t_type = ''income'', t_payment_status = ''unpaid'',
          t_created_at = ''2025-01-15T08:00:00Z''\<rparr>] ! 0) = ''Jasa Service AC''
   \<and> length (je_lines (generateJournal
        [\<lparr>t_id = ''t1'', t_date = ''2025-01-15'', t_description = ''Jasa Service AC'',
          t_amount = 100000, t_type = ''income'', t_payment_status = ''unpaid'',
          t_created_at = ''2025-01-15T08:00:00Z''\<rparr>] ! 0)) = 2
   \<and> list_all (\<lambda>l. (debit l \<noteq> 0) \<noteq> (credit l \<noteq> 0)) (je_lines (generateJournal
        [\<lparr>t_id = ''t1'', t_date = ''2025-01-15'', t_description = ''Jasa Service AC'',
          t_amount = 100000, t_type = ''income'', t_payment_status = ''unpaid'',
          t_created_at = ''2025-01-15T08:00:00Z''\<rparr>] ! 0))"
  using journal_entry_shape [of 0
        "[\<lparr>t_id = ''t1'', t_date = ''2025-01-15'', t_description = ''Jasa Service AC'',
          t_amount = 100000, t_type = ''income'', t_payment_status = ''unpaid'',
          t_created_at = ''2025-01-15T08:00:00Z''\<rparr>]"]
  by (simp add: list_all_iff)

text \<open>
  An income transaction with amount 0: in the first line of its entry it is not the
  case that exactly one of debit and credit is nonzero.
\<close>

theorem journal_entry_shape_counterexample:
  "\<not> ((debit (je_lines (generateJournal
        [\<lparr>t_id = ''t0'', t_date = ''2025-01-15'', t_description = ''Gratis'',
          t_amount = 0, t_type = ''income'', t_payment_status = ''paid'',
          t_created_at = ''2025-01-15T08:00:00Z''\<rparr>] ! 0) ! 0) \<noteq> 0)
     \<noteq> (credit (je_lines (generateJournal
        [\<lparr>t_id = ''t0'', t_date = ''2025-01-15'', t_description = ''Gratis'',
          t_amount = 0, t_type = ''income'', t_payment_status = ''paid'',
          t_created_at = ''2025-01-15T08:00:00Z''\<rparr>] ! 0) ! 0) \<noteq> 0))"
  by (simp add: generateJournal_def journal_entry_of_def journal_lines_def Number_def)

section \<open>Inputs outside the data model\<close>

lemma journal_lines_other_type:
  "t_type t \<noteq> ''income'' \<Longrightarrow> t_type t \<noteq> ''expense'' \<Longrightarrow> journal_lines t = []"
  by (simp add: journal_lines_def Let_def)

lemma journal_lines_other_status:
  "t_payment_status t \<noteq> ''paid'' \<Longrightarrow>
   journal_lines t = journal_lines (t\<lparr>t_payment_status := ''unpaid''\<rparr>)"
  by (simp add: journal_lines_def Let_def)

text \<open>
  Claim C8, as amended. \<^verbatim>\<open>generateJournal\<close> validates nothing and rejects nothing:
  for every input list it returns exactly one entry per transaction, each carrying
  the transaction's id, date and description as they are (the date is not parsed).
  A transaction of type income or expense gets its two lines with the amount as it
  is, negative or not; a transaction of any other type gets an entry without lines;
  a payment status other than \<^verbatim>\<open>paid\<close> is treated as \<^verbatim>\<open>unpaid\<close>. (The constraints
  on amount, type and payment status are enforced by the datastore's schema, outside
  this function.)
\<close>

theorem generateJournal_no_validation:
  assumes "i < length ts"
  shows "length (generateJournal ts) = length ts
       \<and> je_id (generateJournal ts ! i) = t_id (ts ! i)
       \<and> je_date (generateJournal ts ! i) = t_date (ts ! i)
       \<and> je_description (generateJournal ts ! i) = t_description (ts ! i)
       \<and> (t_type (ts ! i) = ''income'' \<or> t_type (ts ! i) = ''expense'' \<longrightarrow>
            length (je_lines (generateJournal ts ! i)) = 2
          \<and> sum_list (map debit (je_lines (generateJournal ts ! i))) = t_amount (ts ! i)
          \<and> sum_list (map credit (je_lines (generateJournal ts ! i))) = t_amount (ts ! i))
       \<and> (t_type (ts ! i) \<noteq> ''income'' \<and> t_type (ts ! i) \<noteq> ''expense'' \<longrightarrow>
            je_lines (generateJournal ts ! i) = [])
       \<and> (t_payment_status (ts ! i) \<noteq> ''paid'' \<longrightarrow>
            je_lines (generateJournal ts ! i) =
              journal_lines ((ts ! i)\<lparr>t_payment_status := ''unpaid''\<rparr>))"
proof -
  let ?t = "ts ! i"
  have e: "generateJournal ts ! i = journal_entry_of ?t"
    using assms by (rule nth_generateJournal)
  have "t_type ?t = ''income'' \<or> t_type ?t = ''expense'' \<longrightarrow>
        length (journal_lines ?t) = 2
      \<and> sum_list (map debit (journal_lines ?t)) = t_amount ?t
      \<and> sum_list (map credit (journal_lines ?t)) = t_amount ?t"
    using journal_lines_shape [of ?t] journal_lines_debit_amount [of ?t]
      journal_lines_debit_credit [of ?t] by auto
  moreover have "t_type ?t \<noteq> ''income'' \<and> t_type ?t \<noteq> ''expense'' \<longrightarrow> journal_lines ?t = []"
    using journal_lines_other_type [of ?t] by simp
  moreover have "t_payment_status ?t \<noteq> ''paid'' \<longrightarrow>
        journal_lines ?t = journal_lines (?t\<lparr>t_payment_status := ''unpaid''\<rparr>)"
    using journal_lines_other_status [of ?t] by simp
  ultimately show ?thesis
    by (simp add: e journal_entry_of_def length_generateJournal)
qed

theorem generateJournal_no_validation_witness:
  "length (generateJournal
     [\<lparr>t_id = ''t9'', t_date = ''not-a-date'', t_description = ''Koreksi'',
       t_amount = - 5000, t_type = ''income'', t_payment_status = ''paid'',
       t_created_at = ''2025-01-15T08:00:00Z''\<rparr>,
      \<lparr>t_id = ''t10'', t_date = ''2025-01-16'', t_description = ''Pindah dana'',
       t_amount = 7000, t_type = ''transfer'', t_payment_status = ''paid'',
       t_created_at = ''2025-01-16T08:00:00Z''\<rparr>,
      \<lparr>t_id = ''t11'', t_date = ''2025-01-17'', t_description = ''Sewa'',
       t_amount = 30000, t_type = ''expense'', t_payment_status = ''pending'',
       t_created_at = ''2025-01-17T08:00:00Z''\<rparr>]) = 3
   \<and> je_date (generateJournal
     [\<lparr>t_id = ''t9'', t_date = ''not-a-date'', t_description = ''Koreksi'',
       t_amount = - 5000, t_type = ''income'', t_payment_status = ''paid'',
       t_created_at = ''2025-01-15T08:00:00Z''\<rparr>,
      \<lparr>t_id = ''t10'', t_date = ''2025-01-16'', t_description = ''Pindah dana'',
       t_amount = 7000, t_type = ''transfer'', t_payment_status = ''paid'',
       t_created_at = ''2025-01-16T08:00:00Z''\<rparr>,
      \<lparr>t_id = ''t11'', t_date = ''2025-01-17'', t_description = ''Sewa'',
       t_amount = 30000, t_type = ''expense'', t_payment_status = ''pending'',
       t_created_at = ''2025-01-17T08:00:00Z''\<rparr>] ! 0) = ''not-a-date''
   \<and> sum_list (map debit (je_lines (generateJournal
     [\<lparr>t_id = ''t9'', t_date = ''not-a-date'', t_description = ''Koreksi'',
       t_amount = - 5000, t_type = ''income'', t_payment_status = ''paid'',
       t_created_at = ''2025-01-15T08:00:00Z''\<rparr>,
      \<lparr>t_id = ''t10'', t_date = ''2025-01-16'', t_description = ''Pindah dana'',
       t_amount = 7000, t_type = ''transfer'', t_payment_status = ''paid'',
       t_created_at = ''2025-01-16T08:00:00Z''\<rparr>,
      \<lparr>t_id = ''t11'', t_date = ''2025-01-17'', t_description = ''Sewa'',
       t_amount = 30000, t_type = ''expense'', t_payment_status = ''pending'',
       t_created_at = ''2025-01-17T08:00:00Z''\<rparr>] ! 0))) = - 5000
   \<and> je_lines (generateJournal
     [\<lparr>t_id = ''t9'', t_date = ''not-a-date'', t_description = ''Koreksi'',
       t_amount = - 5000, t_type = ''income'', t_payment_status = ''paid'',
       t_created_at = ''2025-01-15T08:00:00Z''\<rparr>,
      \<lparr>t_id = ''t10'', t_date = ''2025-01-16'', t_description = ''Pindah dana'',
       t_amount = 7000, t_type = ''transfer'', t_payment_status = ''paid'',
       t_created_at = ''2025-01-16T08:00:00Z''\<rparr>,
      \<lparr>t_id = ''t11'', t_date = ''2025-01-17'', t_description = ''Sewa'',
       t_amount = 30000, t_type = ''expense'', t_payment_status = ''pending'',
       t_created_at = ''2025-01-17T08:00:00Z''\<rparr>] ! 1) = []
   \<and> je_lines (generateJournal
     [\<lparr>t_id = ''t9'', t_date = ''not-a-date'', t_description = ''Koreksi'',
       t_amount = - 5000, t_type = ''income'', t_payment_status = ''paid'',
       t_created_at = ''2025-01-15T08:00:00Z''\<rparr>,
      \<lparr>t_id = ''t10'', t_date = ''2025-01-16'', t_description = ''Pindah dana'',
       t_amount = 7000, t_type = ''transfer'', t_payment_status = ''paid'',
       t_created_at = ''2025-01-16T08:00:00Z''\<rparr>,
      \<lparr>t_id = ''t11'', t_date = ''2025-01-17'', t_description = ''Sewa'',
       t_amount = 30000, t_type = ''expense'', t_payment_status = ''pending'',
       t_created_at = ''2025-01-17T08:00:00Z''\<rparr>] ! 2)
      = [\<lparr>accountId = ''501'', accountName = ''Beban Operasional'', debit = 30000, credit = 0\<rparr>,
         \<lparr>accountId = ''201'', accountName = ''Utang Usaha'', debit = 0, credit = 30000\<rparr>]"
proof -
  let ?ts = "[\<lparr>t_id = ''t9'', t_date = ''not-a-date'', t_description = ''Koreksi'',
       t_amount = - 5000, t_type = ''income'', t_payment_status = ''paid'',
       t_created_at = ''2025-01-15T08:00:00Z''\<rparr>,
      \<lparr>t_id = ''t10'', t_date = ''2025-01-16'', t_description = ''Pindah dana'',
       t_amount = 7000, t_type = ''transfer'', t_payment_status = ''paid'',
       t_created_at = ''2025-01-16T08:00:00Z''\<rparr>,
      \<lparr>t_id = ''t11'', t_date = ''2025-01-17'', t_description = ''Sewa'',
       t_amount = 30000, t_type = ''expense'', t_payment_status = ''pending'',
       t_created_at = ''2025-01-17T08:00:00Z''\<rparr>]"
  have l0: "(0::nat) < length ?ts" and l1: "(1::nat) < length ?ts" and l2: "(2::nat) < length ?ts"
    by simp_all
  from generateJournal_no_validation [OF l0] generateJournal_no_validation [OF l1]
    generateJournal_no_validation [OF l2]
  show ?thesis
    by (simp add: journal_lines_def Number_def acc_501_def acc_201_def)
qed

text \<open>
  A transaction with a negative amount and a malformed date is not rejected: it
  yields an entry, posted with the negative amount.
\<close>

theorem generateJournal_no_validation_counterexample:
  "generateJournal
     [\<lparr>t_id = ''t9'', t_date = ''not-a-date'', t_description = ''Koreksi'',
       t_amount = - 5000, t_type = ''income'', t_payment_status = ''paid'',
       t_created_at = ''2025-01-15T08:00:00Z''\<rparr>]
   = [\<lparr>je_id = ''t9'', je_date = ''not-a-date'', je_description = ''Koreksi'',
       je_lines =
         [\<lparr>accountId = ''401'', accountName = ''Pendapatan Jasa'', debit = 0, credit = - 5000\<rparr>,
          \<lparr>accountId = ''101'', accountName = ''Kas & Bank'', debit = - 5000, credit = 0\<rparr>]\<rparr>]"
  by (simp add: generateJournal_def journal_entry_of_def journal_lines_def Number_def
      acc_401_def acc_101_def)

section \<open>Journals that name an inherited property\<close>

text \<open>
  Claim C5 says that \<^verbatim>\<open>generateLedger\<close> returns one view per account of the chart for
  every journal. The code does not return for the journal below: the account id
  \<^verbatim>\<open>constructor\<close> names a property that the ledger object inherits, the guard
  \<^verbatim>\<open>if (account)\<close> passes, and the push throws. (For every journal without such a
  line the claim holds, by \<open>generateLedger_eq\<close>.)
\<close>

theorem generateLedger_inherited_key:
  "generateLedger
     [\<lparr>je_id = ''j1'', je_date = ''2025-01-15'', je_description = ''Penyesuaian'',
       je_lines =
         [\<lparr>accountId = ''constructor'', accountName = ''Lain-lain'', debit = 1000, credit = 0\<rparr>]\<rparr>]
   = Inl TypeError"
  by (simp add: generateLedger_def init_ledger_def Object_values_def CHART_OF_ACCOUNTS_def
      acc_101_def acc_102_def acc_201_def acc_301_def acc_302_def acc_303_def acc_401_def
      acc_501_def post_line_def obj_get_def object_prototype_keys_def)

text \<open>
  Claim C10 says that \<^verbatim>\<open>generateLedger\<close> skips a line whose account id is no key of
  the chart, raises no error and still posts the other lines of the entry. In the
  journal below the first line names \<^verbatim>\<open>toString\<close>, which is no key of the chart but
  an inherited property of the ledger object: the call throws, and the second line,
  to account 101, is never posted. (A line whose account id is neither a key of the
  chart nor an inherited property is skipped as the claim says, by
  \<open>generateLedger_eq\<close>.)
\<close>

theorem generateLedger_unknown_account_line:
  "generateLedger
     [\<lparr>je_id = ''j1'', je_date = ''2025-01-15'', je_description = ''Penyesuaian'',
       je_lines =
         [\<lparr>accountId = ''toString'', accountName = ''Lain-lain'', debit = 0, credit = 1000\<rparr>,
          \<lparr>accountId = ''101'', accountName = ''Kas & Bank'', debit = 1000, credit = 0\<rparr>]\<rparr>]
   = Inl TypeError"
  by (simp add: generateLedger_def init_ledger_def Object_values_def CHART_OF_ACCOUNTS_def
      acc_101_def acc_102_def acc_201_def acc_301_def acc_302_def acc_303_def acc_401_def
      acc_501_def post_line_def obj_get_def object_prototype_keys_def)

section \<open>Worked scenarios, evaluated from the definitions\<close>

lemma scenario_A:
  "generateLedger (generateJournal
     [\<lparr>t_id = ''a'', t_date = ''2025-01-15'', t_description = ''Jasa'',
       t_amount = 100000, t_type = ''income'', t_payment_status = ''paid'',
       t_created_at = ''2025-01-15T08:00:00Z''\<rparr>])
   = Inr [\<lparr>la_code = ''101'', la_name = ''Kas & Bank'', la_type = Asset, la_balance = 100000,
            la_entries = [\<lparr>le_date = ''2025-01-15'', le_description = ''Jasa'',
                            le_debit = 100000, le_credit = 0\<rparr>]\<rparr>,
          \<lparr>la_code = ''102'', la_name = ''Piutang Usaha'', la_type = Asset, la_balance = 0,
            la_entries = []\<rparr>,
          \<lparr>la_code = ''201'', la_name = ''Utang Usaha'', la_type = Liability, la_balance = 0,
            la_entries = []\<rparr>,
          \<lparr>la_code = ''301'', la_name = ''Modal Pemilik'', la_type = Equity, la_balance = 0,
            la_entries = []\<rparr>,
          \<lparr>la_code = ''302'', la_name = ''Laba Ditahan'', la_type = Equity, la_balance = 0,
            la_entries = []\<rparr>,
          \<lparr>la_code = ''303'', la_name = ''Prive'', la_type = Equity, la_balance = 0,
            la_entries = []\<rparr>,
          \<lparr>la_code = ''401'', la_name = ''Pendapatan Jasa'', la_type = Revenue,
            la_balance = 100000,
            la_entries = [\<lparr>le_date = ''2025-01-15'', le_description = ''Jasa'',
                            le_debit = 0, le_credit = 100000\<rparr>]\<rparr>,
          \<lparr>la_code = ''501'', la_name = ''Beban Operasional'', la_type = Expense,
            la_balance = 0, la_entries = []\<rparr>]"
  by (simp add: generateLedger_def init_ledger_def Object_values_def CHART_OF_ACCOUNTS_def
      acc_101_def acc_102_def acc_201_def acc_301_def acc_302_def acc_303_def acc_401_def
      acc_501_def generateJournal_def journal_entry_of_def journal_lines_def Number_def
      post_line_def obj_get_def Let_def)

lemma generateLedger_empty:
  "generateLedger (generateJournal []) =
     Inr (map (\<lambda>acc. \<lparr>la_code = acc_code acc, la_name = acc_name acc, la_type = acc_type acc,
                      la_balance = 0, la_entries = []\<rparr>) (Object_values CHART_OF_ACCOUNTS))"
  by (simp add: generateLedger_def generateJournal_def init_ledger_def Object_values_def
      CHART_OF_ACCOUNTS_def acc_101_def acc_102_def acc_201_def acc_301_def acc_302_def
      acc_303_def acc_401_def acc_501_def)

end
